theory Spec2Isabelle
  imports Main
begin

section \<open>Python strings\<close>

text \<open>
  Message contents and agent names are Python \<open>str\<close> values, modelled as \<open>string\<close>: a
  \<open>char\<close> is a code point below 256.  The operations below are the ones the code uses
  (\<open>strip\<close>, \<open>lower\<close>, \<open>startswith\<close>, \<open>in\<close>), with Python's behaviour on these code
  points.  The whitespace that \<open>str.strip\<close> removes is 9 to 13, 28 to 32, 133 (next
  line) and 160 (no-break space).
\<close>

definition isspace :: "char \<Rightarrow> bool" where
  "isspace c =
     (let n = (of_char c :: nat)
      in (9 \<le> n \<and> n \<le> 13) \<or> (28 \<le> n \<and> n \<le> 32) \<or> n = 133 \<or> n = 160)"

definition strip :: "string \<Rightarrow> string" where
  "strip s = rev (dropWhile isspace (rev (dropWhile isspace s)))"

definition ascii_uppercase :: string where
  "ascii_uppercase = ''ABCDEFGHIJKLMNOPQRSTUVWXYZ''"

definition ascii_lowercase :: string where
  "ascii_lowercase = ''abcdefghijklmnopqrstuvwxyz''"

text \<open>
  \<open>str.lower\<close> maps \<open>A\<close> to \<open>Z\<close> onto \<open>a\<close> to \<open>z\<close>, and the capital letters 192 to
  222 of Latin-1 (all but the multiplication sign, 215) onto the letters 32 places up;
  it leaves every other code point below 256 alone.
\<close>

definition lower_char :: "char \<Rightarrow> char" where
  "lower_char c =
     (case map_of (zip ascii_uppercase ascii_lowercase) c of
        Some d \<Rightarrow> d
      | None \<Rightarrow>
          (let n = (of_char c :: nat)
           in if 192 \<le> n \<and> n \<le> 222 \<and> n \<noteq> 215 then char_of (n + 32) else c))"

definition lower :: "string \<Rightarrow> string" where
  "lower s = map lower_char s"

definition startswith :: "string \<Rightarrow> string \<Rightarrow> bool" where
  "startswith s p = (take (length p) s = p)"

text \<open>\<open>contains p s\<close> is Python's \<open>p in s\<close>: \<open>p\<close> occurs in \<open>s\<close> as a substring.\<close>

fun contains :: "string \<Rightarrow> string \<Rightarrow> bool" where
  "contains p [] = (p = [])"
| "contains p (c # cs) = (startswith (c # cs) p \<or> contains p cs)"

text \<open>
  \<open>re.match(r".*_agent$", s)\<close>: the match is anchored at the start, \<open>.\<close> matches
  every character but a newline, and \<open>$\<close> matches at the end of the string or just
  before a newline that ends the string.  So \<open>s\<close> matches exactly when \<open>s\<close>, without
  one trailing newline if it has one, ends with \<open>_agent\<close> and has no newline before
  that suffix.
\<close>

definition newline :: char where
  "newline = CHR 0x0A"

definition endswith :: "string \<Rightarrow> string \<Rightarrow> bool" where
  "endswith s p = (drop (length s - length p) s = p \<and> length p \<le> length s)"

definition re_match_agent :: "string \<Rightarrow> bool" where
  "re_match_agent s =
     (let t = (if s \<noteq> [] \<and> last s = newline then butlast s else s)
      in endswith t ''_agent'' \<and> newline \<notin> set (take (length t - 6) t))"

section \<open>Messages\<close>

text \<open>
  A message of the transcript.  \<open>kind\<close> is the message class (\<open>isinstance\<close> tests it);
  only an \<open>AIMessage\<close> has the attribute \<open>tool_calls\<close>, a list of dictionaries, each
  with the keys \<open>"name"\<close> and \<open>"args"\<close>.  \<open>name\<close> is the attribute \<open>name\<close>: a string,
  Python's \<open>None\<close> (the default of the message classes), or no attribute at all.
  \<open>function_call\<close> is the entry \<open>"function_call"\<close> of \<open>additional_kwargs\<close>, when there
  is one.
\<close>

type_synonym json_args = "(string \<times> string) list"

datatype tool_call_dict = ToolCallDict (tcd_name: string) (tcd_args: json_args)

datatype msg_kind =
  AIMessage "tool_call_dict list" | HumanMessage | SystemMessage | ToolMessage

datatype py_name = NoAttr | PyNone | PyStr string

record function_call =
  fc_name :: "string option"
  fc_arguments :: "string option"

record base_message =
  kind :: msg_kind
  content :: string
  name :: py_name
  function_call :: "function_call option"

text \<open>
  Exceptions: the ones Python raises in the code modelled here, the \<open>HTTPException\<close>
  the routes raise, and \<open>Raised\<close> for whatever a collaborator (the workflow, a tool,
  the database) raises.
\<close>

datatype py_error =
    TypeError | IndexError | KeyError | AttributeError | JSONDecodeError
  | HTTPError nat string | Raised string

definition is_AIMessage :: "base_message \<Rightarrow> bool" where
  "is_AIMessage m = (case kind m of AIMessage tcs \<Rightarrow> True | _ \<Rightarrow> False)"

text \<open>\<open>getattr(msg, "tool_calls", None)\<close>: \<open>None\<close> when the message has no such attribute.\<close>

definition getattr_tool_calls :: "base_message \<Rightarrow> tool_call_dict list option" where
  "getattr_tool_calls m = (case kind m of AIMessage tcs \<Rightarrow> Some tcs | _ \<Rightarrow> None)"

text \<open>
  \<open>getattr(msg, "name", "")\<close>: the default \<open>""\<close> stands in only where the attribute
  is missing; an attribute that is \<open>None\<close> is returned as \<open>None\<close>.
\<close>

definition getattr_name :: "base_message \<Rightarrow> string option" where
  "getattr_name m = (case name m of NoAttr \<Rightarrow> Some [] | PyNone \<Rightarrow> None | PyStr s \<Rightarrow> Some s)"

text \<open>\<open>re.match(r".*_agent$", x)\<close> raises \<open>TypeError\<close> when \<open>x\<close> is not a string.\<close>

definition re_match :: "string option \<Rightarrow> py_error + bool" where
  "re_match x = (case x of None \<Rightarrow> Inl TypeError | Some s \<Rightarrow> Inr (re_match_agent s))"

section \<open>Response extraction (\<open>routes.py\<close>)\<close>

text \<open>
  \<open>extract_final_response\<close> is the same function in \<open>modules/assistant/routes.py\<close>
  and \<open>backend/assistant/routes.py\<close>.  Its inner function \<open>is_meaningful\<close>:
\<close>

definition is_meaningful :: "base_message \<Rightarrow> bool" where
  "is_meaningful msg =
     (if \<not> is_AIMessage msg \<or> content msg = [] then False
      else
        (let c = lower (strip (content msg))
         in getattr_tool_calls msg = Some []
            \<and> \<not> contains ''transferred'' c
            \<and> \<not> startswith c ''transferring''
            \<and> \<not> startswith c ''if you have any further''
            \<and> \<not> startswith c ''i have successfully''))"

text \<open>
  The three loops, each over \<open>reversed(messages)\<close>; \<open>Inr None\<close> says that the loop
  ended without returning.  In the first loop the test is
  \<open>isinstance(msg, AIMessage) and re.match(...) and is_meaningful(msg)\<close>, evaluated left
  to right, so \<open>re.match\<close> runs for every \<open>AIMessage\<close> the loop reaches.
\<close>

fun agent_loop :: "base_message list \<Rightarrow> py_error + string option" where
  "agent_loop [] = Inr None"
| "agent_loop (msg # msgs) =
     (if is_AIMessage msg then
        (case re_match (getattr_name msg) of
           Inl e \<Rightarrow> Inl e
         | Inr matched \<Rightarrow>
             if matched \<and> is_meaningful msg then Inr (Some (strip (content msg)))
             else agent_loop msgs)
      else agent_loop msgs)"

fun meaningful_loop :: "base_message list \<Rightarrow> string option" where
  "meaningful_loop [] = None"
| "meaningful_loop (msg # msgs) =
     (if is_meaningful msg then Some (strip (content msg)) else meaningful_loop msgs)"

fun nonempty_loop :: "base_message list \<Rightarrow> string option" where
  "nonempty_loop [] = None"
| "nonempty_loop (msg # msgs) =
     (if is_AIMessage msg \<and> content msg \<noteq> [] then Some (strip (content msg))
      else nonempty_loop msgs)"

definition extract_final_response :: "base_message list \<Rightarrow> py_error + string" where
  "extract_final_response messages =
     (case agent_loop (rev messages) of
        Inl e \<Rightarrow> Inl e
      | Inr (Some r) \<Rightarrow> Inr r
      | Inr None \<Rightarrow>
          (case meaningful_loop (rev messages) of
             Some r \<Rightarrow> Inr r
           | None \<Rightarrow>
               (case nonempty_loop (rev messages) of
                  Some r \<Rightarrow> Inr r
                | None \<Rightarrow> Inr ''No meaningful response found.'')))"

section \<open>The streaming filters (\<open>backend/assistant/routes.py\<close>)\<close>

text \<open>
  \<open>is_meaningful_response\<close> computes \<open>lower = content.lower()\<close> and tests the first
  four phrases on \<open>lower\<close>, the last two on \<open>content\<close> itself.
\<close>

definition is_meaningful_response :: "string \<Rightarrow> bool" where
  "is_meaningful_response c =
     (let lower_c = lower c
      in \<not> contains ''transferring'' lower_c
         \<and> \<not> contains ''transferred'' lower_c
         \<and> \<not> startswith lower_c ''transferring back to''
         \<and> \<not> startswith lower_c ''successfully transferred''
         \<and> \<not> startswith c ''i have successfully''
         \<and> \<not> startswith c ''if you have any further'')"

text \<open>
  \<open>is_valid_ai_message\<close> is an \<open>and\<close> chain that ends in \<open>re.match\<close>; the model
  returns its truth value, as the caller's \<open>if\<close> reads it.
\<close>

definition is_valid_ai_message :: "base_message \<Rightarrow> py_error + bool" where
  "is_valid_ai_message m =
     (if is_AIMessage m \<and> strip (content m) \<noteq> [] \<and> is_meaningful_response (content m)
      then re_match (getattr_name m)
      else Inr False)"

section \<open>The chat routes\<close>

text \<open>
  An interrupt of the workflow.  \<open>ivalue\<close> is \<open>interrupt.value\<close>, a list of requests
  for a human decision; each is a dictionary that may have the keys
  \<open>"action_request"\<close> (itself with \<open>"action"\<close> and \<open>"args"\<close>) and \<open>"description"\<close>.
  \<open>attr_args\<close> is the attribute \<open>args\<close> of the interrupt object, \<open>None\<close> when it has
  no such attribute.
\<close>

record action_request =
  action :: "string option"
  args :: "json_args option"

record hitl_request =
  action_request :: "action_request option"
  description :: "string option"

record interrupt =
  ivalue :: "hitl_request list"
  attr_args :: "json_args option"

text \<open>
  The dictionary \<open>run_workflow\<close> returns: \<open>result_messages\<close> is
  \<open>result.get("messages", [])\<close>, and \<open>interrupts\<close> is \<open>result["__interrupt__"]\<close> when
  the key is there and holds a list.
\<close>

record workflow_result =
  result_messages :: "base_message list"
  interrupts :: "interrupt list option"

record chat_request =
  session_id :: "string option"
  message :: string

datatype interruption =
  Interruption (int_type: string) (int_message: string) (int_args: json_args)

text \<open>
  What a route answers: a \<open>ChatResponse\<close>, the JSON body of an interrupted turn, a raised
  \<open>HTTPException\<close> with its status code, or the JSON body with status 500 that the
  route builds from a caught exception.
\<close>

datatype http_response =
    ChatResponse string
  | Interrupted string interruption
  | HTTPException nat string
  | JSONResponse500 py_error string

definition apology :: string where
  "apology = ''I apologize, but I'm experiencing technical difficulties. Please try again.''"

text \<open>
  The routes take their collaborators as parameters: \<open>py_str\<close> is \<open>str\<close> on an
  interrupt's value, and \<open>run_workflow\<close> runs the workflow on a message and a session
  identifier, over the session store, returning its result or the exception it raised.
\<close>

type_synonym 's workflow = "string \<Rightarrow> string \<Rightarrow> 's \<Rightarrow> (py_error + workflow_result) \<times> 's"

text \<open>\<open>modules/assistant/routes.py\<close>, \<open>chat_with_agent\<close>.\<close>

definition modules_chat_with_agent ::
    "(hitl_request list \<Rightarrow> string) \<Rightarrow> 's workflow \<Rightarrow> chat_request \<Rightarrow> 's \<Rightarrow> http_response \<times> 's" where
  "modules_chat_with_agent py_str run_workflow request store =
     (case session_id request of
        None \<Rightarrow> (HTTPException 400 ''session_id is required'', store)
      | Some sid \<Rightarrow>
          if sid = [] then (HTTPException 400 ''session_id is required'', store)
          else
            (case run_workflow (message request) sid store of
               (Inl e, store') \<Rightarrow> (JSONResponse500 e apology, store')
             | (Inr result, store') \<Rightarrow>
                 (case interrupts result of
                    Some [] \<Rightarrow> (JSONResponse500 IndexError apology, store')
                  | Some (intr # _) \<Rightarrow>
                      (Interrupted (py_str (ivalue intr))
                         (Interruption ''create_product'' (py_str (ivalue intr))
                            (case attr_args intr of None \<Rightarrow> [] | Some a \<Rightarrow> a)),
                       store')
                  | None \<Rightarrow>
                      (case extract_final_response (result_messages result) of
                         Inl e \<Rightarrow> (JSONResponse500 e apology, store')
                       | Inr response_text \<Rightarrow> (ChatResponse response_text, store')))))"

text \<open>\<open>backend/assistant/routes.py\<close>, \<open>chat_with_agent\<close>.\<close>

definition backend_chat_with_agent ::
    "(hitl_request list \<Rightarrow> string) \<Rightarrow> 's workflow \<Rightarrow> chat_request \<Rightarrow> 's \<Rightarrow> http_response \<times> 's" where
  "backend_chat_with_agent py_str run_workflow request store =
     (case session_id request of
        None \<Rightarrow> (HTTPException 400 ''session_id is required'', store)
      | Some sid \<Rightarrow>
          if sid = [] then (HTTPException 400 ''session_id is required'', store)
          else
            (case run_workflow (message request) sid store of
               (Inl e, store') \<Rightarrow> (JSONResponse500 e apology, store')
             | (Inr result, store') \<Rightarrow>
                 (case interrupts result of
                    Some [] \<Rightarrow> (JSONResponse500 IndexError apology, store')
                  | Some (intr # _) \<Rightarrow>
                      (case ivalue intr of
                         [] \<Rightarrow> (JSONResponse500 IndexError apology, store')
                       | v # _ \<Rightarrow>
                           (let req = (case action_request v of
                                         None \<Rightarrow> \<lparr>action = None, args = None\<rparr>
                                       | Some r \<Rightarrow> r);
                                tool_name = (case action req of None \<Rightarrow> ''unknown'' | Some n \<Rightarrow> n);
                                tool_args = (case args req of None \<Rightarrow> [] | Some a \<Rightarrow> a)
                            in (Interrupted (py_str (ivalue intr))
                                  (Interruption tool_name
                                     (case description v of None \<Rightarrow> [] | Some d \<Rightarrow> d)
                                     tool_args),
                                store')))
                  | None \<Rightarrow>
                      (case extract_final_response (result_messages result) of
                         Inl e \<Rightarrow> (JSONResponse500 e apology, store')
                       | Inr response_text \<Rightarrow> (ChatResponse response_text, store')))))"

text \<open>
  \<open>backend/assistant/routes.py\<close>, \<open>chat_with_agent_stream\<close>.  The body of the
  stream is the generator \<open>stream_agent_response\<close>, a parameter here.  The handler
  raises its \<open>HTTPException\<close> inside a \<open>try\<close> whose only clause is
  \<open>except Exception\<close>, which catches it.
\<close>

datatype 'g stream_response = StreamingResponse 'g | StreamJSONResponse500 py_error string

definition chat_with_agent_stream ::
    "(string \<Rightarrow> string \<Rightarrow> 'g) \<Rightarrow> chat_request \<Rightarrow> 'g stream_response" where
  "chat_with_agent_stream stream_agent_response request =
     (case session_id request of
        None \<Rightarrow>
          StreamJSONResponse500 (HTTPError 400 ''session_id is required'')
            ''Internal server error occurred during streaming.''
      | Some sid \<Rightarrow>
          if sid = [] then
            StreamJSONResponse500 (HTTPError 400 ''session_id is required'')
              ''Internal server error occurred during streaming.''
          else StreamingResponse (stream_agent_response (message request) sid))"

section \<open>The assistant agent (\<open>modules/assistant/agent.py\<close>)\<close>

record agent_state =
  messages :: "base_message list"

definition HumanMessage_of :: "string \<Rightarrow> base_message" where
  "HumanMessage_of c = \<lparr>kind = HumanMessage, content = c, name = PyNone, function_call = None\<rparr>"

text \<open>
  The three tools run against the database, and \<open>json.loads\<close> parses the arguments of
  a legacy function call: all four are parameters.  A tool takes the arguments and the
  database, and returns its result string or the exception it raised, with the database
  as it left it.
\<close>

type_synonym 'db tool = "json_args \<Rightarrow> 'db \<Rightarrow> (py_error + string) \<times> 'db"

record 'db tools_env =
  view_product_tool :: "'db tool"
  add_to_cart_tool :: "'db tool"
  place_order_tool :: "'db tool"
  json_loads :: "string \<Rightarrow> py_error + json_args"

text \<open>The names of the tools in \<open>tools\<close>, the set bound to the model.\<close>

definition bound_tools :: "string set" where
  "bound_tools = {''ViewProduct'', ''AddToCart'', ''PlaceOrder''}"

text \<open>
  What the loop of \<open>call_tools\<close> iterates over: an entry of the message's own
  \<open>tool_calls\<close>, a dictionary, or the object that \<open>call_tools\<close> builds for a legacy
  function call, of the class \<open>ToolCall\<close> it creates on the spot, with the attributes
  \<open>name\<close> and \<open>arguments\<close>.
\<close>

datatype tool_call = DictEntry tool_call_dict | ToolCall string json_args

text \<open>
  \<open>tool_call.name\<close> and \<open>tool_call.arguments\<close>: a dictionary has neither attribute,
  and reading one raises \<open>AttributeError\<close>.
\<close>

definition attr_name :: "tool_call \<Rightarrow> py_error + string" where
  "attr_name tool_call =
     (case tool_call of DictEntry d \<Rightarrow> Inl AttributeError | ToolCall n a \<Rightarrow> Inr n)"

definition attr_arguments :: "tool_call \<Rightarrow> py_error + json_args" where
  "attr_arguments tool_call =
     (case tool_call of DictEntry d \<Rightarrow> Inl AttributeError | ToolCall n a \<Rightarrow> Inr a)"

text \<open>
  The head of \<open>call_tools\<close>: \<open>tool_calls = getattr(last, "tool_calls", None)\<close>, replaced
  by one call built from \<open>additional_kwargs["function_call"]\<close> when it is empty or
  missing and that entry is there.  \<open>json.loads\<close> runs before \<open>func_call["name"]\<close> is
  read.
\<close>

definition pending_tool_calls ::
    "'db tools_env \<Rightarrow> base_message \<Rightarrow> py_error + tool_call list option" where
  "pending_tool_calls env last_msg =
     (let tool_calls = map_option (map DictEntry) (getattr_tool_calls last_msg)
      in if (tool_calls = None \<or> tool_calls = Some []) \<and> function_call last_msg \<noteq> None then
           (case function_call last_msg of
              None \<Rightarrow> Inr tool_calls
            | Some func_call \<Rightarrow>
                (case json_loads env
                        (case fc_arguments func_call of None \<Rightarrow> ''{}'' | Some a \<Rightarrow> a) of
                   Inl e \<Rightarrow> Inl e
                 | Inr arguments \<Rightarrow>
                     (case fc_name func_call of
                        None \<Rightarrow> Inl KeyError
                      | Some n \<Rightarrow> Inr (Some [ToolCall n arguments]))))
         else Inr tool_calls)"

text \<open>The \<open>if\<close>/\<open>elif\<close> chain of the loop: the dispatch on the tool's name.\<close>

definition dispatch_tool ::
    "'db tools_env \<Rightarrow> string \<Rightarrow> json_args \<Rightarrow> 'db \<Rightarrow> (py_error + string) \<times> 'db" where
  "dispatch_tool env tool_name tool_args db =
     (if tool_name = ''ViewProduct'' then view_product_tool env tool_args db
      else if tool_name = ''AddToCart'' then add_to_cart_tool env tool_args db
      else if tool_name = ''PlaceOrder'' then place_order_tool env tool_args db
      else (Inr (''Unknown tool: '' @ tool_name), db))"

text \<open>
  The loop, with \<open>tool_results\<close> as its accumulator: it reads \<open>tool_call.name\<close> and
  \<open>tool_call.arguments\<close>, then dispatches.  An exception ends it; what the earlier
  tools did to the database stays done.
\<close>

fun run_tool_calls ::
    "'db tools_env \<Rightarrow> tool_call list \<Rightarrow> base_message list \<Rightarrow> 'db
      \<Rightarrow> (py_error + base_message list) \<times> 'db" where
  "run_tool_calls env [] tool_results db = (Inr tool_results, db)"
| "run_tool_calls env (tool_call # rest) tool_results db =
     (case attr_name tool_call of
        Inl e \<Rightarrow> (Inl e, db)
      | Inr tool_name \<Rightarrow>
          (case attr_arguments tool_call of
             Inl e \<Rightarrow> (Inl e, db)
           | Inr tool_args \<Rightarrow>
               (case dispatch_tool env tool_name tool_args db of
                  (Inl e, db') \<Rightarrow> (Inl e, db')
                | (Inr res, db') \<Rightarrow>
                    run_tool_calls env rest (tool_results @ [HumanMessage_of res]) db')))"

definition call_tools ::
    "'db tools_env \<Rightarrow> agent_state \<Rightarrow> 'db \<Rightarrow> (py_error + agent_state) \<times> 'db" where
  "call_tools env state db =
     (if messages state = [] then (Inl IndexError, db)
      else
        (case pending_tool_calls env (last (messages state)) of
           Inl e \<Rightarrow> (Inl e, db)
         | Inr None \<Rightarrow> (Inr state, db)
         | Inr (Some []) \<Rightarrow> (Inr state, db)
         | Inr (Some (tc # tcs)) \<Rightarrow>
             (case run_tool_calls env (tc # tcs) [] db of
                (Inl e, db') \<Rightarrow> (Inl e, db')
              | (Inr tool_results, db') \<Rightarrow>
                  (Inr (state\<lparr>messages := messages state @ tool_results\<rparr>), db'))))"

text \<open>
  \<open>ecommerce_assistant\<close> runs the compiled graph (\<open>agent_graph.ainvoke\<close>, a parameter)
  on the state that holds the user's message, then walks the final messages from the
  last one back.
\<close>

fun last_content :: "base_message list \<Rightarrow> string option" where
  "last_content [] = None"
| "last_content (msg # msgs) =
     (if content msg \<noteq> [] \<and> strip (content msg) \<noteq> [] then Some (content msg)
      else last_content msgs)"

definition ecommerce_assistant ::
    "(agent_state \<Rightarrow> py_error + agent_state) \<Rightarrow> string \<Rightarrow> py_error + string" where
  "ecommerce_assistant ainvoke user_message =
     (case ainvoke \<lparr>messages = [HumanMessage_of user_message]\<rparr> of
        Inl e \<Rightarrow> Inl e
      | Inr state \<Rightarrow>
          (case last_content (rev (messages state)) of
             Some c \<Rightarrow> Inr c
           | None \<Rightarrow> Inr ''Sorry, I could not process your request.''))"

section \<open>Example inputs\<close>

text \<open>\<open>ai c n\<close> is an \<open>AIMessage\<close> with content \<open>c\<close> and name \<open>n\<close> that calls no tool.\<close>

definition ai :: "string \<Rightarrow> py_name \<Rightarrow> base_message" where
  "ai c n = \<lparr>kind = AIMessage [], content = c, name = n, function_call = None\<rparr>"

text \<open>The interrupt of an intercepted \<open>delete_product\<close> call with \<open>sku = "ABC"\<close>.\<close>

definition delete_product_interrupt :: interrupt where
  "delete_product_interrupt =
     \<lparr>ivalue =
        [\<lparr>action_request =
             Some \<lparr>action = Some ''delete_product'', args = Some [(''sku'', ''ABC'')]\<rparr>,
           description = Some ''Delete product ABC?''\<rparr>],
      attr_args = None\<rparr>"

definition interrupted_workflow :: "'s workflow" where
  "interrupted_workflow user_input sid store =
     (Inr \<lparr>result_messages = [], interrupts = Some [delete_product_interrupt]\<rparr>, store)"

text \<open>A workflow that counts its runs in the store.\<close>

definition counting_workflow :: "nat workflow" where
  "counting_workflow user_input sid store =
     (Inr \<lparr>result_messages = [ai ''Hello'' (PyStr ''customer_agent'')], interrupts = None\<rparr>,
      Suc store)"

text \<open>The JSON text \<open>{"product_id": "1"}\<close>; the code point 34 is the double quote.\<close>

definition product_id_json :: string where
  "product_id_json =
     ''{'' @ [CHR 0x22] @ ''product_id'' @ [CHR 0x22] @ '': '' @ [CHR 0x22] @ ''1''
       @ [CHR 0x22] @ ''}''"

text \<open>
  Tools over a catalogue without products, whose cart and order services are down
  (the database is the number of writes, and stays as it is).  \<open>ViewProduct\<close> takes
  the one keyword \<open>product_id\<close>.  \<open>json.loads\<close> is given on the two texts the
  examples use.
\<close>

definition sample_tools :: "nat tools_env" where
  "sample_tools =
     \<lparr>view_product_tool =
        (\<lambda>a db. if map fst a = [''product_id''] then (Inr ''Product not found.'', db)
                 else (Inl TypeError, db)),
      add_to_cart_tool = (\<lambda>a db. (Inl (Raised ''cart service down''), db)),
      place_order_tool = (\<lambda>a db. (Inl (Raised ''order service down''), db)),
      json_loads =
        (\<lambda>s. if s = ''{}'' then Inr []
              else if s = product_id_json then Inr [(''product_id'', ''1'')]
              else Inl JSONDecodeError)\<rparr>"

text \<open>
  An \<open>AIMessage\<close> that asks for a tool through the legacy \<open>function_call\<close> entry,
  with the JSON text of its arguments when it has one.
\<close>

definition ai_function_call :: "string \<Rightarrow> string option \<Rightarrow> base_message" where
  "ai_function_call n a =
     \<lparr>kind = AIMessage [], content = [], name = PyNone,
      function_call = Some \<lparr>fc_name = Some n, fc_arguments = a\<rparr>\<rparr>"

text \<open>An \<open>AIMessage\<close> that asks for tools through its own \<open>tool_calls\<close>.\<close>

definition ai_tool_calls :: "tool_call_dict list \<Rightarrow> base_message" where
  "ai_tool_calls tcs =
     \<lparr>kind = AIMessage tcs, content = [], name = PyNone, function_call = None\<rparr>"

section \<open>The string functions\<close>

lemmas str_eval = startswith_def lower_def lower_char_def strip_def isspace_def
  ascii_uppercase_def ascii_lowercase_def endswith_def newline_def re_match_agent_def

lemmas msg_eval = ai_def HumanMessage_of_def is_AIMessage_def getattr_tool_calls_def
  getattr_name_def re_match_def is_meaningful_def

text \<open>
  \<open>re_match_agent\<close> is the regular expression: a match is a prefix without newline,
  then \<open>_agent\<close>, then the end of the string or one last newline.
\<close>

lemma endswith_iff: "endswith s p \<longleftrightarrow> (\<exists>q. s = q @ p)"
proof
  assume "endswith s p"
  then have "s = take (length s - length p) s @ p"
    by (metis append_take_drop_id endswith_def)
  then show "\<exists>q. s = q @ p" ..
next
  assume "\<exists>q. s = q @ p"
  then show "endswith s p" by (auto simp: endswith_def)
qed

lemma re_match_agent_iff:
  "re_match_agent s \<longleftrightarrow>
     (\<exists>p. newline \<notin> set p \<and> (s = p @ ''_agent'' \<or> s = p @ ''_agent'' @ [newline]))"
proof
  assume m: "re_match_agent s"
  define t where "t = (if s \<noteq> [] \<and> last s = newline then butlast s else s)"
  from m have e: "endswith t ''_agent''" and n: "newline \<notin> set (take (length t - 6) t)"
    by (simp_all add: re_match_agent_def t_def Let_def)
  from e obtain q where q: "t = q @ ''_agent''" by (auto simp: endswith_iff)
  with n have nq: "newline \<notin> set q" by simp
  have "s = t \<or> s = t @ [newline]"
    by (auto simp: t_def) (metis append_butlast_last_id)
  with q nq show "\<exists>p. newline \<notin> set p \<and> (s = p @ ''_agent'' \<or> s = p @ ''_agent'' @ [newline])"
    by auto
next
  assume "\<exists>p. newline \<notin> set p \<and> (s = p @ ''_agent'' \<or> s = p @ ''_agent'' @ [newline])"
  then obtain p where p: "newline \<notin> set p"
    and s: "s = p @ ''_agent'' \<or> s = p @ ''_agent'' @ [newline]" by blast
  from s show "re_match_agent s"
  proof
    assume "s = p @ ''_agent''"
    with p show ?thesis
      by (simp add: re_match_agent_def endswith_def newline_def)
  next
    assume "s = p @ ''_agent'' @ [newline]"
    with p show ?thesis
      by (simp add: re_match_agent_def endswith_def butlast_append)
  qed
qed

section \<open>Properties of response extraction\<close>

lemma agent_loop_no_agent:
  "\<forall>x\<in>set msgs. is_AIMessage x \<longrightarrow>
      name x \<noteq> PyNone \<and> \<not> (re_match (getattr_name x) = Inr True \<and> is_meaningful x)
   \<Longrightarrow> agent_loop msgs = Inr None"
proof (induction msgs)
  case Nil
  show ?case by simp
next
  case (Cons m ms)
  then have tl: "agent_loop ms = Inr None" by simp
  show ?case
  proof (cases "is_AIMessage m")
    case False
    with tl show ?thesis by simp
  next
    case True
    with Cons.prems have nn: "name m \<noteq> PyNone"
      and na: "\<not> (re_match (getattr_name m) = Inr True \<and> is_meaningful m)" by simp_all
    from nn obtain b where b: "re_match (getattr_name m) = Inr b"
      by (cases "name m") (simp_all add: re_match_def getattr_name_def)
    with na have "\<not> (b \<and> is_meaningful m)" by auto
    with True b tl show ?thesis by simp
  qed
qed

lemma meaningful_loop_skip:
  "\<forall>x\<in>set xs. \<not> is_meaningful x \<Longrightarrow> meaningful_loop (xs @ ys) = meaningful_loop ys"
  by (induction xs) simp_all

lemma meaningful_loop_none:
  "\<forall>x\<in>set xs. \<not> is_meaningful x \<Longrightarrow> meaningful_loop xs = None"
  by (induction xs) simp_all

lemma nonempty_loop_none:
  "\<forall>x\<in>set xs. is_AIMessage x \<longrightarrow> content x = [] \<Longrightarrow> nonempty_loop xs = None"
  by (induction xs) auto

lemma is_meaningful_content: "is_meaningful m \<Longrightarrow> is_AIMessage m \<and> content m \<noteq> []"
  by (auto simp: is_meaningful_def split: if_splits)

text \<open>
  Where every \<open>AIMessage\<close> has a name that is not \<open>None\<close> and an empty content, the
  three loops all fall through.
\<close>

lemma extract_fallback_when_named:
  assumes names: "\<forall>x\<in>set msgs. is_AIMessage x \<longrightarrow> name x \<noteq> PyNone"
    and empty: "\<forall>x\<in>set msgs. is_AIMessage x \<longrightarrow> content x = []"
  shows "extract_final_response msgs = Inr ''No meaningful response found.''"
proof -
  from empty have nm: "\<forall>x\<in>set (rev msgs). \<not> is_meaningful x"
    by (auto simp: is_meaningful_def)
  with names have "agent_loop (rev msgs) = Inr None"
    by (intro agent_loop_no_agent) auto
  moreover from nm have "meaningful_loop (rev msgs) = None"
    by (rule meaningful_loop_none)
  moreover from empty have "nonempty_loop (rev msgs) = None"
    by (intro nonempty_loop_none) simp
  ultimately show ?thesis by (simp add: extract_final_response_def)
qed

lemma agent_loop_returns_ai:
  "agent_loop msgs = Inr (Some r) \<Longrightarrow> \<exists>m\<in>set msgs. is_AIMessage m \<and> r = strip (content m)"
  by (induction msgs) (auto split: if_splits sum.splits)

lemma meaningful_loop_returns_ai:
  "meaningful_loop msgs = Some r \<Longrightarrow> \<exists>m\<in>set msgs. is_AIMessage m \<and> r = strip (content m)"
  by (induction msgs) (auto split: if_splits dest: is_meaningful_content)

lemma nonempty_loop_returns_ai:
  "nonempty_loop msgs = Some r \<Longrightarrow> \<exists>m\<in>set msgs. is_AIMessage m \<and> r = strip (content m)"
  by (induction msgs) (auto split: if_splits)

text \<open>
  What extraction returns is the fallback string or the stripped content of some
  \<open>AIMessage\<close> of the transcript.
\<close>

lemma extract_returns_ai_content:
  assumes "extract_final_response msgs = Inr r"
  shows "r = ''No meaningful response found.''
         \<or> (\<exists>m\<in>set msgs. is_AIMessage m \<and> r = strip (content m))"
proof (cases "agent_loop (rev msgs)")
  case (Inl e)
  with assms show ?thesis by (simp add: extract_final_response_def)
next
  case (Inr a)
  show ?thesis
  proof (cases a)
    case (Some s)
    with Inr assms have "agent_loop (rev msgs) = Inr (Some r)"
      by (simp add: extract_final_response_def)
    from agent_loop_returns_ai [OF this] show ?thesis by simp
  next
    case None
    show ?thesis
    proof (cases "meaningful_loop (rev msgs)")
      case (Some s)
      with Inr None assms have "meaningful_loop (rev msgs) = Some r"
        by (simp add: extract_final_response_def)
      from meaningful_loop_returns_ai [OF this] show ?thesis by simp
    next
      case mNone: None
      show ?thesis
      proof (cases "nonempty_loop (rev msgs)")
        case (Some s)
        with Inr None mNone assms have "nonempty_loop (rev msgs) = Some r"
          by (simp add: extract_final_response_def)
        from nonempty_loop_returns_ai [OF this] show ?thesis by simp
      next
        case nNone: None
        with Inr None mNone assms show ?thesis
          by (simp add: extract_final_response_def)
      qed
    qed
  qed
qed

text \<open>
  Extraction returns a string for every transcript in which no \<open>AIMessage\<close> has the
  name \<open>None\<close>.
\<close>

lemma agent_loop_total_when_named:
  "\<forall>x\<in>set msgs. is_AIMessage x \<longrightarrow> name x \<noteq> PyNone \<Longrightarrow> \<exists>r. agent_loop msgs = Inr r"
proof (induction msgs)
  case Nil
  show ?case by simp
next
  case (Cons m ms)
  then obtain r where tl: "agent_loop ms = Inr r" by auto
  show ?case
  proof (cases "is_AIMessage m")
    case False
    with tl show ?thesis by simp
  next
    case True
    with Cons.prems have "name m \<noteq> PyNone" by simp
    then obtain b where "re_match (getattr_name m) = Inr b"
      by (cases "name m") (simp_all add: re_match_def getattr_name_def)
    with True tl show ?thesis by simp
  qed
qed

lemma extract_total_when_named:
  assumes "\<forall>x\<in>set msgs. is_AIMessage x \<longrightarrow> name x \<noteq> PyNone"
  shows "\<exists>r. extract_final_response msgs = Inr r"
proof -
  from assms have "\<forall>x\<in>set (rev msgs). is_AIMessage x \<longrightarrow> name x \<noteq> PyNone" by simp
  from agent_loop_total_when_named [OF this]
  obtain a where "agent_loop (rev msgs) = Inr a" by blast
  then show ?thesis
    by (simp add: extract_final_response_def split: option.splits)
qed

text \<open>
  Claim C3.  For the transcript of an AI message "transferring to stock_agent" named
  "supervisor" followed by an AI message "Stock level for SKU123 is 42" named
  "stock_agent", neither calling a tool, \<open>extract_final_response\<close> returns exactly
  "Stock level for SKU123 is 42".
\<close>

theorem extract_final_response_stock_level:
  "extract_final_response
     [ai ''transferring to stock_agent'' (PyStr ''supervisor''),
      ai ''Stock level for SKU123 is 42'' (PyStr ''stock_agent'')]
   = Inr ''Stock level for SKU123 is 42''"
  by (simp add: extract_final_response_def msg_eval str_eval)

text \<open>
  Claim C2.  The claim says that \<open>extract_final_response\<close> and \<open>is_valid_ai_message\<close>
  never raise, also on an AI message whose name is \<open>None\<close>.  On the transcript that
  holds one AI message "Hello" with name \<open>None\<close>, both raise \<open>TypeError\<close>:
  \<open>getattr(msg, "name", "")\<close> returns that \<open>None\<close>, and \<open>re.match\<close> refuses it.
\<close>

theorem extract_final_response_raises_on_unnamed_ai:
  "extract_final_response [ai ''Hello'' PyNone] = Inl TypeError
   \<and> is_valid_ai_message (ai ''Hello'' PyNone) = Inl TypeError"
  by (simp add: extract_final_response_def is_valid_ai_message_def is_meaningful_response_def
      msg_eval str_eval)

text \<open>
  Claim C6.  The claim says that a transcript whose AI messages all have empty content
  gives "No meaningful response found.".  On the transcript that holds only an AI
  message with content "" and name \<open>None\<close>, the first loop raises \<open>TypeError\<close> before
  the fallback is reached (\<open>extract_fallback_when_named\<close> is the claim for names that
  are not \<open>None\<close>).
\<close>

theorem extract_final_response_raises_on_empty_unnamed_ai:
  "extract_final_response [ai [] PyNone] = Inl TypeError"
  by (simp add: extract_final_response_def msg_eval)

text \<open>
  Claim C5.  The claim says that every implementation of the filter excludes content
  that starts with "I have successfully" whatever its case.  \<open>is_meaningful_response\<close>
  accepts "I have successfully created the product", and a content that starts with
  "If you have any further": it tests these two phrases on the content as it is, not
  on its lower-case form.  \<open>is_meaningful\<close> rejects both
  (\<open>is_meaningful_case_insensitive\<close>).
\<close>

theorem is_meaningful_response_case_sensitive:
  "is_meaningful_response ''I have successfully created the product''
   \<and> is_meaningful_response ''If you have any further questions, just ask.''"
  by (simp add: is_meaningful_response_def str_eval)

lemma is_meaningful_case_insensitive:
  "\<not> is_meaningful (ai ''I have successfully created the product'' (PyStr ''product_agent''))
   \<and> \<not> is_meaningful (ai ''If you have any further questions, just ask.'' (PyStr ''product_agent''))"
  by (simp add: msg_eval str_eval)

text \<open>
  Claim C4, as stated, fails: on the transcript that holds only the human message
  "hello", whose content is not empty and passes every test of the filter on the
  content, extraction does not return "hello" but the fallback string.
\<close>

theorem extract_ignores_human_message:
  "extract_final_response [HumanMessage_of ''hello''] = Inr ''No meaningful response found.''
   \<and> content (HumanMessage_of ''hello'') = ''hello''
   \<and> \<not> contains ''transferred'' (lower (strip ''hello''))
   \<and> \<not> startswith (lower (strip ''hello'')) ''transferring''
   \<and> \<not> startswith (lower (strip ''hello'')) ''if you have any further''
   \<and> \<not> startswith (lower (strip ''hello'')) ''i have successfully''"
  by (simp add: extract_final_response_def msg_eval str_eval)

text \<open>
  Claim C4, amended.  In a transcript whose AI messages all have a name that is not
  \<open>None\<close>, when no AI message with a name matching \<open>*_agent\<close> passes the filter,
  extraction returns the stripped content of the most recent AI message that passes
  the filter (\<open>is_meaningful\<close>: an \<open>AIMessage\<close> with non-empty content, no tool call
  and no handoff phrase), whatever its name.  Messages that are not AI messages are
  never selected: whatever extraction returns, on any transcript, is the fallback
  string or the stripped content of an \<open>AIMessage\<close> of the transcript.
\<close>

theorem extract_fallback_most_recent_ai:
  "((\<forall>x\<in>set msgs. is_AIMessage x \<longrightarrow> name x \<noteq> PyNone) \<longrightarrow>
    (\<forall>x\<in>set msgs.
        \<not> (is_AIMessage x \<and> re_match (getattr_name x) = Inr True \<and> is_meaningful x)) \<longrightarrow>
    msgs = pre @ m # post \<longrightarrow> is_meaningful m \<longrightarrow> (\<forall>x\<in>set post. \<not> is_meaningful x) \<longrightarrow>
    extract_final_response msgs = Inr (strip (content m)))
   \<and> (\<forall>r. extract_final_response msgs = Inr r \<longrightarrow>
         r = ''No meaningful response found.''
         \<or> (\<exists>x\<in>set msgs. is_AIMessage x \<and> r = strip (content x)))"
proof (intro conjI impI allI)
  assume names: "\<forall>x\<in>set msgs. is_AIMessage x \<longrightarrow> name x \<noteq> PyNone"
    and no_agent: "\<forall>x\<in>set msgs.
        \<not> (is_AIMessage x \<and> re_match (getattr_name x) = Inr True \<and> is_meaningful x)"
    and split: "msgs = pre @ m # post"
    and m: "is_meaningful m"
    and post: "\<forall>x\<in>set post. \<not> is_meaningful x"
  from names no_agent have "agent_loop (rev msgs) = Inr None"
    by (intro agent_loop_no_agent) auto
  moreover have "meaningful_loop (rev msgs) = Some (strip (content m))"
  proof -
    have "rev msgs = rev post @ (m # rev pre)" using split by simp
    moreover from post have "\<forall>x\<in>set (rev post). \<not> is_meaningful x" by simp
    ultimately have "meaningful_loop (rev msgs) = meaningful_loop (m # rev pre)"
      using meaningful_loop_skip by metis
    with m show ?thesis by simp
  qed
  ultimately show "extract_final_response msgs = Inr (strip (content m))"
    by (simp add: extract_final_response_def)
next
  fix r
  assume "extract_final_response msgs = Inr r"
  then show "r = ''No meaningful response found.''
      \<or> (\<exists>x\<in>set msgs. is_AIMessage x \<and> r = strip (content x))"
    by (rule extract_returns_ai_content)
qed

text \<open>
  An instance: the last message is a handoff that starts with a no-break space, which
  \<open>strip\<close> removes; the message before it is not an AI message.
\<close>

theorem extract_fallback_most_recent_ai_witness:
  "extract_final_response
     [ai '' Stock level for SKU123 is 42 '' (PyStr ''supervisor''),
      HumanMessage_of ''thanks'',
      ai (CHR 0xA0 # ''Transferring back to supervisor'') (PyStr ''stock_agent'')]
   = Inr ''Stock level for SKU123 is 42''"
  using extract_fallback_most_recent_ai
    [of "[ai '' Stock level for SKU123 is 42 '' (PyStr ''supervisor''),
          HumanMessage_of ''thanks'',
          ai (CHR 0xA0 # ''Transferring back to supervisor'') (PyStr ''stock_agent'')]"
        "[]" "ai '' Stock level for SKU123 is 42 '' (PyStr ''supervisor'')"
        "[HumanMessage_of ''thanks'',
          ai (CHR 0xA0 # ''Transferring back to supervisor'') (PyStr ''stock_agent'')]"]
  by (simp add: msg_eval str_eval)

section \<open>Properties of the chat routes\<close>

text \<open>
  Claim C1.  The claim says that the interruption of \<open>POST /assistant/chat\<close> names
  the intercepted tool and carries its arguments.  For the interrupt of a
  \<open>delete_product\<close> call with \<open>sku = "ABC"\<close>, the route of
  \<open>modules/assistant/routes.py\<close> answers with type "create_product" and no arguments;
  the route of \<open>backend/assistant/routes.py\<close> answers with type "delete_product" and
  the arguments of the call.
\<close>

theorem modules_chat_interruption_type_fixed:
  "modules_chat_with_agent py_str interrupted_workflow
      \<lparr>session_id = Some ''s1'', message = ''delete product ABC''\<rparr> store
   = (Interrupted (py_str (ivalue delete_product_interrupt))
        (Interruption ''create_product'' (py_str (ivalue delete_product_interrupt)) []),
      store)
   \<and> backend_chat_with_agent py_str interrupted_workflow
      \<lparr>session_id = Some ''s1'', message = ''delete product ABC''\<rparr> store
   = (Interrupted (py_str (ivalue delete_product_interrupt))
        (Interruption ''delete_product'' ''Delete product ABC?'' [(''sku'', ''ABC'')]),
      store)"
  by (simp add: modules_chat_with_agent_def backend_chat_with_agent_def
      interrupted_workflow_def delete_product_interrupt_def)

text \<open>
  Claim C7.  For every chat request whose \<open>session_id\<close> is missing or empty,
  \<open>POST /assistant/chat\<close> (in both route files) raises the \<open>HTTPException\<close> with
  status 400 and leaves the session store as it was, whatever the workflow would do:
  the workflow is not run.
\<close>

theorem chat_missing_session_rejected:
  assumes "session_id request = None \<or> session_id request = Some []"
  shows "modules_chat_with_agent py_str run_workflow request store
           = (HTTPException 400 ''session_id is required'', store)
         \<and> backend_chat_with_agent py_str run_workflow request store
           = (HTTPException 400 ''session_id is required'', store)"
  using assms
  by (auto simp: modules_chat_with_agent_def backend_chat_with_agent_def)

theorem chat_missing_session_rejected_witness:
  "modules_chat_with_agent (\<lambda>v. []) counting_workflow \<lparr>session_id = Some [], message = ''hi''\<rparr> 0
     = (HTTPException 400 ''session_id is required'', 0)
   \<and> backend_chat_with_agent (\<lambda>v. []) counting_workflow \<lparr>session_id = None, message = ''hi''\<rparr> 0
     = (HTTPException 400 ''session_id is required'', 0)
   \<and> modules_chat_with_agent (\<lambda>v. []) counting_workflow \<lparr>session_id = Some ''s1'', message = ''hi''\<rparr> 0
     = (ChatResponse ''Hello'', 1)"
  using chat_missing_session_rejected
      [of "\<lparr>session_id = Some [], message = ''hi''\<rparr>" "\<lambda>v. []" counting_workflow 0]
    chat_missing_session_rejected
      [of "\<lparr>session_id = None, message = ''hi''\<rparr>" "\<lambda>v. []" counting_workflow 0]
  by (simp add: modules_chat_with_agent_def counting_workflow_def extract_final_response_def
      msg_eval str_eval)

text \<open>
  The streaming route is not part of claim C7: there the \<open>HTTPException\<close> is caught
  by the handler's own \<open>except Exception\<close>, and the answer has status 500.
\<close>

lemma chat_with_agent_stream_missing_session:
  "session_id request = None \<or> session_id request = Some [] \<Longrightarrow>
   chat_with_agent_stream stream_agent_response request
     = StreamJSONResponse500 (HTTPError 400 ''session_id is required'')
         ''Internal server error occurred during streaming.''"
  by (auto simp: chat_with_agent_stream_def)


section \<open>Properties of the assistant agent\<close>

lemma dispatch_unknown:
  "tool_name \<notin> bound_tools \<Longrightarrow>
   dispatch_tool env tool_name tool_args db = (Inr (''Unknown tool: '' @ tool_name), db)"
  by (simp add: dispatch_tool_def bound_tools_def)

lemma run_tool_calls_appends:
  "run_tool_calls env tcs acc db = (Inr res, db') \<Longrightarrow>
   \<exists>new. res = acc @ new \<and> (\<forall>r\<in>set new. kind r = HumanMessage)"
proof (induction tcs arbitrary: acc db)
  case Nil
  then show ?case by simp
next
  case (Cons tc tcs)
  from Cons.prems obtain s d
    where "run_tool_calls env tcs (acc @ [HumanMessage_of s]) d = (Inr res, db')"
    by (auto split: sum.splits prod.splits)
  from Cons.IH [OF this] obtain new
    where "res = (acc @ [HumanMessage_of s]) @ new" and "\<forall>r\<in>set new. kind r = HumanMessage"
    by blast
  then have "res = acc @ (HumanMessage_of s # new)
      \<and> (\<forall>r\<in>set (HumanMessage_of s # new). kind r = HumanMessage)"
    by (simp add: HumanMessage_of_def)
  then show ?case by blast
qed

text \<open>
  A message's own \<open>tool_calls\<close> never reach the dispatch: their entries are
  dictionaries, and the loop's first statement, \<open>name = tool_call.name\<close>, raises.
\<close>

lemma call_tools_native_tool_calls_raise:
  assumes "messages state \<noteq> []"
    and "getattr_tool_calls (last (messages state)) = Some (d # ds)"
  shows "call_tools env state db = (Inl AttributeError, db)"
  using assms by (simp add: call_tools_def pending_tool_calls_def attr_name_def)

text \<open>
  Claim C8, as stated, fails: for an AI message whose legacy function call names
  \<open>DeleteProduct\<close>, a tool outside the bound set, \<open>call_tools\<close> raises nothing; it
  returns the state with the substitute result "Unknown tool: DeleteProduct" appended,
  and the graph goes on to \<open>chat\<close>.
\<close>

theorem call_tools_unknown_tool_continues:
  "''DeleteProduct'' \<notin> bound_tools
   \<and> call_tools sample_tools
        \<lparr>messages = [ai_function_call ''DeleteProduct'' (Some ''{}'')]\<rparr> 0
     = (Inr \<lparr>messages = [ai_function_call ''DeleteProduct'' (Some ''{}''),
                          HumanMessage_of ''Unknown tool: DeleteProduct'']\<rparr>, 0)"
  by (simp add: call_tools_def pending_tool_calls_def getattr_tool_calls_def
      ai_function_call_def sample_tools_def attr_name_def attr_arguments_def
      dispatch_tool_def bound_tools_def)

text \<open>
  Claim C8, amended.  A tool-call intent that names a tool outside the bound set
  \<open>{ViewProduct, AddToCart, PlaceOrder}\<close> is not an error at runtime: the dispatch
  calls no tool, leaves the database alone and yields the result
  "Unknown tool: <name>"; and when the last message asks for such a tool through
  its legacy \<open>function_call\<close> entry (its own \<open>tool_calls\<close> being empty or missing, and
  the arguments being JSON that parses), \<open>call_tools\<close> returns the state with one
  \<open>HumanMessage\<close> of that content appended.
\<close>

theorem unknown_tool_substitute_result:
  "(tool_name \<notin> bound_tools \<longrightarrow>
      dispatch_tool env tool_name tool_args db = (Inr (''Unknown tool: '' @ tool_name), db))
   \<and> (messages state \<noteq> [] \<longrightarrow>
      (getattr_tool_calls (last (messages state)) = None
         \<or> getattr_tool_calls (last (messages state)) = Some []) \<longrightarrow>
      function_call (last (messages state)) = Some func_call \<longrightarrow>
      json_loads env (case fc_arguments func_call of None \<Rightarrow> ''{}'' | Some a \<Rightarrow> a)
        = Inr tool_args \<longrightarrow>
      fc_name func_call = Some tool_name \<longrightarrow>
      tool_name \<notin> bound_tools \<longrightarrow>
      call_tools env state db
        = (Inr (state\<lparr>messages := messages state
                   @ [HumanMessage_of (''Unknown tool: '' @ tool_name)]\<rparr>), db))"
proof (intro conjI impI)
  assume "tool_name \<notin> bound_tools"
  then show "dispatch_tool env tool_name tool_args db
      = (Inr (''Unknown tool: '' @ tool_name), db)"
    by (rule dispatch_unknown)
next
  assume ne: "messages state \<noteq> []"
    and calls: "getattr_tool_calls (last (messages state)) = None
         \<or> getattr_tool_calls (last (messages state)) = Some []"
    and fc: "function_call (last (messages state)) = Some func_call"
    and js: "json_loads env (case fc_arguments func_call of None \<Rightarrow> ''{}'' | Some a \<Rightarrow> a)
        = Inr tool_args"
    and nm: "fc_name func_call = Some tool_name"
    and unknown: "tool_name \<notin> bound_tools"
  from calls fc js nm
  have "pending_tool_calls env (last (messages state)) = Inr (Some [ToolCall tool_name tool_args])"
    by (auto simp: pending_tool_calls_def)
  moreover from unknown
  have "run_tool_calls env [ToolCall tool_name tool_args] [] db
      = (Inr [HumanMessage_of (''Unknown tool: '' @ tool_name)], db)"
    by (simp add: attr_name_def attr_arguments_def dispatch_unknown)
  ultimately show "call_tools env state db
      = (Inr (state\<lparr>messages := messages state
                 @ [HumanMessage_of (''Unknown tool: '' @ tool_name)]\<rparr>), db)"
    using ne by (simp add: call_tools_def)
qed

theorem unknown_tool_substitute_result_witness:
  "dispatch_tool sample_tools ''Refund'' [] 7 = (Inr ''Unknown tool: Refund'', 7)
   \<and> call_tools sample_tools
        \<lparr>messages = [HumanMessage_of ''refund my order'',
                      ai_function_call ''Refund'' (Some ''{}'')]\<rparr> 7
     = (Inr \<lparr>messages = [HumanMessage_of ''refund my order'',
                          ai_function_call ''Refund'' (Some ''{}''),
                          HumanMessage_of ''Unknown tool: Refund'']\<rparr>, 7)"
  using unknown_tool_substitute_result
    [where tool_name = "''Refund''" and env = sample_tools and tool_args = "[]" and db = 7
       and state = "\<lparr>messages = [HumanMessage_of ''refund my order'',
                                  ai_function_call ''Refund'' (Some ''{}'')]\<rparr>"
       and func_call = "\<lparr>fc_name = Some ''Refund'', fc_arguments = Some ''{}''\<rparr>"]
  by (simp add: bound_tools_def getattr_tool_calls_def ai_function_call_def sample_tools_def)

text \<open>
  Claim C9.  \<open>call_tools\<close> only appends to the message log.  For a state whose last
  message has no tool calls (no attribute \<open>tool_calls\<close>, or an empty one) and no
  \<open>function_call\<close> entry, it returns the state, and the database, unchanged; and
  whenever it returns a state, the messages of that state are the input's messages
  followed by tool results, each a \<open>HumanMessage\<close>.
\<close>

theorem call_tools_appends_only:
  "(messages state \<noteq> [] \<longrightarrow>
      (getattr_tool_calls (last (messages state)) = None
         \<or> getattr_tool_calls (last (messages state)) = Some []) \<longrightarrow>
      function_call (last (messages state)) = None \<longrightarrow>
      call_tools env state db = (Inr state, db))
   \<and> (\<forall>state' db'. call_tools env state db = (Inr state', db') \<longrightarrow>
      (\<exists>tool_results. messages state' = messages state @ tool_results
          \<and> (\<forall>r\<in>set tool_results. kind r = HumanMessage)))"
proof (intro conjI impI allI)
  assume "messages state \<noteq> []"
    and "getattr_tool_calls (last (messages state)) = None
         \<or> getattr_tool_calls (last (messages state)) = Some []"
    and "function_call (last (messages state)) = None"
  then show "call_tools env state db = (Inr state, db)"
    by (auto simp: call_tools_def pending_tool_calls_def)
next
  fix state' db'
  assume ret: "call_tools env state db = (Inr state', db')"
  then have ne: "messages state \<noteq> []"
    by (auto simp: call_tools_def split: if_splits)
  show "\<exists>tool_results. messages state' = messages state @ tool_results
          \<and> (\<forall>r\<in>set tool_results. kind r = HumanMessage)"
  proof (cases "pending_tool_calls env (last (messages state))")
    case (Inl e)
    with ret ne show ?thesis by (simp add: call_tools_def)
  next
    case (Inr pending)
    show ?thesis
    proof (cases "pending = None \<or> pending = Some []")
      case True
      with ret ne Inr have "state' = state" by (auto simp: call_tools_def)
      then show ?thesis by simp
    next
      case False
      then obtain c cs where cs: "pending = Some (c # cs)"
        by (cases pending) (auto simp: neq_Nil_conv)
      obtain r d where run: "run_tool_calls env (c # cs) [] db = (r, d)"
        by (cases "run_tool_calls env (c # cs) [] db")
      from ret ne Inr cs run obtain res
        where r: "r = Inr res" and st: "state' = state\<lparr>messages := messages state @ res\<rparr>"
        by (cases r) (auto simp: call_tools_def)
      from run r have "run_tool_calls env (c # cs) [] db = (Inr res, d)" by simp
      from run_tool_calls_appends [OF this]
      have "\<forall>r\<in>set res. kind r = HumanMessage" by simp
      with st show ?thesis by simp
    qed
  qed
qed

text \<open>
  Two runs that return: one on a human message, which changes nothing, and one on a
  legacy function call of \<open>ViewProduct\<close> with the arguments \<open>{"product_id": "1"}\<close>,
  which appends the tool's result.
\<close>

theorem call_tools_appends_only_witness:
  "call_tools sample_tools \<lparr>messages = [HumanMessage_of ''hi'']\<rparr> 0
     = (Inr \<lparr>messages = [HumanMessage_of ''hi'']\<rparr>, 0)
   \<and> call_tools sample_tools
        \<lparr>messages = [HumanMessage_of ''show product 1'',
                      ai_function_call ''ViewProduct'' (Some product_id_json)]\<rparr> 0
     = (Inr \<lparr>messages = [HumanMessage_of ''show product 1'',
                          ai_function_call ''ViewProduct'' (Some product_id_json),
                          HumanMessage_of ''Product not found.'']\<rparr>, 0)
   \<and> (\<exists>tool_results.
        [HumanMessage_of ''show product 1'',
         ai_function_call ''ViewProduct'' (Some product_id_json),
         HumanMessage_of ''Product not found.'']
        = [HumanMessage_of ''show product 1'',
           ai_function_call ''ViewProduct'' (Some product_id_json)] @ tool_results
        \<and> (\<forall>r\<in>set tool_results. kind r = HumanMessage))"
  using call_tools_appends_only
      [of "\<lparr>messages = [HumanMessage_of ''hi'']\<rparr>" sample_tools 0]
    call_tools_appends_only
      [of "\<lparr>messages = [HumanMessage_of ''show product 1'',
                          ai_function_call ''ViewProduct'' (Some product_id_json)]\<rparr>"
          sample_tools 0]
  by (simp add: call_tools_def pending_tool_calls_def getattr_tool_calls_def
      ai_function_call_def HumanMessage_of_def dispatch_tool_def sample_tools_def
      attr_name_def attr_arguments_def product_id_json_def)

lemma last_content_skip:
  "\<forall>x\<in>set xs. strip (content x) = [] \<Longrightarrow> last_content (xs @ ys) = last_content ys"
  by (induction xs) simp_all

lemma strip_Nil: "strip [] = []"
  by (simp add: strip_def)

text \<open>
  Claim C10.  \<open>ecommerce_assistant\<close> applies no filter and no preference for agent
  names: for every final state of the graph, it returns the content (as it is, not
  stripped) of the most recent message, of any kind and name, whose stripped content is
  not empty, and "Sorry, I could not process your request." when no message has one.
\<close>

theorem ecommerce_assistant_last_nonblank:
  assumes final: "ainvoke \<lparr>messages = [HumanMessage_of user_message]\<rparr> = Inr state"
  shows "(\<forall>pre m post.
            messages state = pre @ m # post \<and> strip (content m) \<noteq> []
              \<and> (\<forall>x\<in>set post. strip (content x) = [])
            \<longrightarrow> ecommerce_assistant ainvoke user_message = Inr (content m))
         \<and> ((\<forall>x\<in>set (messages state). strip (content x) = [])
            \<longrightarrow> ecommerce_assistant ainvoke user_message
                  = Inr ''Sorry, I could not process your request.'')"
proof (intro conjI allI impI)
  fix pre m post
  assume h: "messages state = pre @ m # post \<and> strip (content m) \<noteq> []
      \<and> (\<forall>x\<in>set post. strip (content x) = [])"
  then have "rev (messages state) = rev post @ (m # rev pre)" by simp
  moreover from h have "\<forall>x\<in>set (rev post). strip (content x) = []" by simp
  ultimately have "last_content (rev (messages state)) = last_content (m # rev pre)"
    using last_content_skip by metis
  moreover from h have "content m \<noteq> []" using strip_Nil by metis
  ultimately have "last_content (rev (messages state)) = Some (content m)"
    using h by simp
  with final show "ecommerce_assistant ainvoke user_message = Inr (content m)"
    by (simp add: ecommerce_assistant_def)
next
  assume "\<forall>x\<in>set (messages state). strip (content x) = []"
  then have "\<forall>x\<in>set (rev (messages state)). strip (content x) = []" by simp
  from last_content_skip [OF this, of "[]"]
  have "last_content (rev (messages state)) = None" by simp
  with final show "ecommerce_assistant ainvoke user_message
      = Inr ''Sorry, I could not process your request.''"
    by (simp add: ecommerce_assistant_def)
qed

text \<open>
  Three final states: one that ends with a blank message after a handoff message, one
  whose last message is a single no-break space, which \<open>strip\<close> removes, and one
  with no message but a blank one.
\<close>

theorem ecommerce_assistant_last_nonblank_witness:
  "ecommerce_assistant
      (\<lambda>s. Inr \<lparr>messages = messages s @ [ai '' Transferred to stock_agent '' (PyStr ''supervisor''),
                                         ai '' '' (PyStr ''stock_agent'')]\<rparr>) ''stock of SKU123?''
     = Inr '' Transferred to stock_agent ''
   \<and> ecommerce_assistant
      (\<lambda>s. Inr \<lparr>messages = [ai ''Answer'' (PyStr ''stock_agent''),
                             ai [CHR 0xA0] (PyStr ''stock_agent'')]\<rparr>) ''hi''
     = Inr ''Answer''
   \<and> ecommerce_assistant (\<lambda>s. Inr \<lparr>messages = [ai '' '' (PyStr ''stock_agent'')]\<rparr>) ''hi''
     = Inr ''Sorry, I could not process your request.''"
  using ecommerce_assistant_last_nonblank
      [of "\<lambda>s. Inr \<lparr>messages = messages s @ [ai '' Transferred to stock_agent '' (PyStr ''supervisor''),
                                             ai '' '' (PyStr ''stock_agent'')]\<rparr>"
          "''stock of SKU123?''"
          "\<lparr>messages = [HumanMessage_of ''stock of SKU123?'',
                        ai '' Transferred to stock_agent '' (PyStr ''supervisor''),
                        ai '' '' (PyStr ''stock_agent'')]\<rparr>"]
    ecommerce_assistant_last_nonblank
      [of "\<lambda>s. Inr \<lparr>messages = [ai ''Answer'' (PyStr ''stock_agent''),
                                 ai [CHR 0xA0] (PyStr ''stock_agent'')]\<rparr>" "''hi''"
          "\<lparr>messages = [ai ''Answer'' (PyStr ''stock_agent''),
                        ai [CHR 0xA0] (PyStr ''stock_agent'')]\<rparr>"]
    ecommerce_assistant_last_nonblank
      [of "\<lambda>s. Inr \<lparr>messages = [ai '' '' (PyStr ''stock_agent'')]\<rparr>" "''hi''"
          "\<lparr>messages = [ai '' '' (PyStr ''stock_agent'')]\<rparr>"]
  by (simp add: ecommerce_assistant_def ai_def HumanMessage_of_def strip_def isspace_def)

text \<open>
  The two policies differ: on a final state that ends with a handoff message after an
  agent's answer, \<open>ecommerce_assistant\<close> returns the handoff message and
  \<open>extract_final_response\<close> the answer.
\<close>

lemma ecommerce_assistant_differs_from_extract:
  "ecommerce_assistant
      (\<lambda>s. Inr \<lparr>messages = messages s
                    @ [ai ''Stock level for SKU123 is 42'' (PyStr ''stock_agent''),
                       ai ''Transferred back to supervisor'' (PyStr ''supervisor'')]\<rparr>)
      ''stock of SKU123?''
     = Inr ''Transferred back to supervisor''
   \<and> extract_final_response
        [HumanMessage_of ''stock of SKU123?'',
         ai ''Stock level for SKU123 is 42'' (PyStr ''stock_agent''),
         ai ''Transferred back to supervisor'' (PyStr ''supervisor'')]
     = Inr ''Stock level for SKU123 is 42''"
  by (simp add: ecommerce_assistant_def extract_final_response_def msg_eval str_eval)

end
